theory Spec2Isabelle
  imports Complex_Main
begin

section \<open>JavaScript numbers\<close>

text \<open>
  The analysis engine computes with JavaScript numbers.  The model uses exact real
  arithmetic for finite values and keeps the three non-finite values that a division can
  produce, so that every quotient whose divisor may be zero is visible in the result.

  The scope of the model: every sample has a valid timestamp and finite numeric fields, as
  in a document that follows the TCX schema (an \<open>Invalid Date\<close> and the texts \<open>Infinity\<close> and
  \<open>-Infinity\<close> are left out); the rounding error, overflow and underflow of floating-point
  arithmetic are not modelled; the sign of a zero is not modelled, and a zero divisor is
  taken as \<open>+0\<close>, so only the sign of an infinite quotient can differ from JavaScript.
\<close>

datatype jsnum = Fin real | PosInf | NegInf | NaN

fun jneg :: "jsnum \<Rightarrow> jsnum" where
  "jneg (Fin a) = Fin (- a)"
| "jneg PosInf = NegInf"
| "jneg NegInf = PosInf"
| "jneg NaN = NaN"

fun jadd :: "jsnum \<Rightarrow> jsnum \<Rightarrow> jsnum" where
  "jadd (Fin a) (Fin b) = Fin (a + b)"
| "jadd NaN _ = NaN"
| "jadd _ NaN = NaN"
| "jadd PosInf NegInf = NaN"
| "jadd NegInf PosInf = NaN"
| "jadd PosInf _ = PosInf"
| "jadd _ PosInf = PosInf"
| "jadd NegInf _ = NegInf"
| "jadd _ NegInf = NegInf"

definition jsub :: "jsnum \<Rightarrow> jsnum \<Rightarrow> jsnum" where
  "jsub x y = jadd x (jneg y)"

definition jsignInf :: "bool \<Rightarrow> jsnum" where
  "jsignInf negative = (if negative then NegInf else PosInf)"

fun jmul :: "jsnum \<Rightarrow> jsnum \<Rightarrow> jsnum" where
  "jmul (Fin a) (Fin b) = Fin (a * b)"
| "jmul NaN _ = NaN"
| "jmul _ NaN = NaN"
| "jmul (Fin a) PosInf = (if a = 0 then NaN else jsignInf (a < 0))"
| "jmul (Fin a) NegInf = (if a = 0 then NaN else jsignInf (0 < a))"
| "jmul PosInf (Fin b) = (if b = 0 then NaN else jsignInf (b < 0))"
| "jmul NegInf (Fin b) = (if b = 0 then NaN else jsignInf (0 < b))"
| "jmul PosInf PosInf = PosInf"
| "jmul NegInf NegInf = PosInf"
| "jmul PosInf NegInf = NegInf"
| "jmul NegInf PosInf = NegInf"

fun jdiv :: "jsnum \<Rightarrow> jsnum \<Rightarrow> jsnum" where
  "jdiv (Fin a) (Fin b) =
     (if b \<noteq> 0 then Fin (a / b)
      else if a = 0 then NaN else jsignInf (a < 0))"
| "jdiv NaN _ = NaN"
| "jdiv _ NaN = NaN"
| "jdiv (Fin a) PosInf = Fin 0"
| "jdiv (Fin a) NegInf = Fin 0"
| "jdiv PosInf (Fin b) = jsignInf (b < 0)"
| "jdiv NegInf (Fin b) = jsignInf (0 \<le> b)"
| "jdiv PosInf PosInf = NaN"
| "jdiv PosInf NegInf = NaN"
| "jdiv NegInf PosInf = NaN"
| "jdiv NegInf NegInf = NaN"

text \<open>\<open>x > y\<close> and \<open>x < y\<close> on numbers: every comparison with \<open>NaN\<close> is false.\<close>

fun jless :: "jsnum \<Rightarrow> jsnum \<Rightarrow> bool" where
  "jless (Fin a) (Fin b) = (a < b)"
| "jless NaN _ = False"
| "jless _ NaN = False"
| "jless _ NegInf = False"
| "jless PosInf _ = False"
| "jless NegInf _ = True"
| "jless _ PosInf = True"

definition isFinite :: "jsnum \<Rightarrow> bool" where
  "isFinite x = (case x of Fin _ \<Rightarrow> True | _ \<Rightarrow> False)"

text \<open>\<open>Math.round\<close>: the nearest integer, ties towards \<open>+\<infinity>\<close>.\<close>

definition Math_round :: "real \<Rightarrow> real" where
  "Math_round x = of_int \<lfloor>x + 1 / 2\<rfloor>"

section \<open>Data model (types.ts)\<close>

datatype HRZoneMethod = MAX_HR | KARVONEN

text \<open>The fields of \<open>UserSettings\<close> that the engine reads; \<open>zoneMethod\<close> is the field \<open>method\<close>.\<close>

record UserSettings =
  maxHR :: real
  restingHR :: real
  zoneMethod :: HRZoneMethod

text \<open>
  A \<open>TrackPoint\<close>: \<open>time\<close> is \<open>Date.getTime()\<close> in milliseconds; an optional field
  is \<open>None\<close> when it is \<open>undefined\<close>.  The field \<open>speed\<close> is never written or read.

  The functions of the engine that take a \<open>RunData\<close> read only its \<open>points\<close>: below they
  take the list of points.
\<close>

record TrackPoint =
  time :: int
  lat :: "real option"
  lng :: "real option"
  altitude :: "real option"
  distance :: "real option"
  hr :: "real option"

text \<open>\<open>x || 0\<close> on an optional number.\<close>

definition orZero :: "real option \<Rightarrow> real" where
  "orZero x = (case x of None \<Rightarrow> 0 | Some v \<Rightarrow> v)"

text \<open>Truthiness of an optional number: \<open>undefined\<close> and \<open>0\<close> are falsy.\<close>

definition truthy :: "real option \<Rightarrow> bool" where
  "truthy x = (case x of None \<Rightarrow> False | Some v \<Rightarrow> v \<noteq> 0)"

text \<open>\<open>(p2.time.getTime() - p1.time.getTime()) / 1000\<close>\<close>

definition secondsBetween :: "TrackPoint \<Rightarrow> TrackPoint \<Rightarrow> real" where
  "secondsBetween p1 p2 = real_of_int (time p2 - time p1) / 1000"

section \<open>Grade adjusted pace\<close>



section \<open>Heart-rate zones\<close>

text \<open>An element of the array returned by \<open>calculateZones\<close>; \<open>min_bpm\<close> and \<open>max_bpm\<close> are
  the fields \<open>min\<close> and \<open>max\<close>.\<close>

record ZoneBounds =
  label :: string
  min_bpm :: real
  max_bpm :: real

text \<open>\<open>HRZoneDistribution\<close>: the zone's bounds and label with its number, seconds and share.\<close>

record HRZoneDistribution = ZoneBounds +
  zone :: nat
  seconds :: real
  percentage :: real

definition calculateZones :: "UserSettings \<Rightarrow> ZoneBounds list" where
  "calculateZones settings =
     (let hrReserve = maxHR settings - restingHR settings
      in if zoneMethod settings = KARVONEN then
           [\<lparr>label = ''Z1 Recovery'',
              min_bpm = Math_round (restingHR settings + hrReserve * 0.50),
              max_bpm = Math_round (restingHR settings + hrReserve * 0.60)\<rparr>,
            \<lparr>label = ''Z2 Aerobic'',
              min_bpm = Math_round (restingHR settings + hrReserve * 0.60),
              max_bpm = Math_round (restingHR settings + hrReserve * 0.70)\<rparr>,
            \<lparr>label = ''Z3 Tempo'',
              min_bpm = Math_round (restingHR settings + hrReserve * 0.70),
              max_bpm = Math_round (restingHR settings + hrReserve * 0.80)\<rparr>,
            \<lparr>label = ''Z4 Threshold'',
              min_bpm = Math_round (restingHR settings + hrReserve * 0.80),
              max_bpm = Math_round (restingHR settings + hrReserve * 0.90)\<rparr>,
            \<lparr>label = ''Z5 Anaerobic'',
              min_bpm = Math_round (restingHR settings + hrReserve * 0.90),
              max_bpm = maxHR settings\<rparr>]
         else
           [\<lparr>label = ''Z1 Recovery'',
              min_bpm = Math_round (maxHR settings * 0.50),
              max_bpm = Math_round (maxHR settings * 0.60)\<rparr>,
            \<lparr>label = ''Z2 Aerobic'',
              min_bpm = Math_round (maxHR settings * 0.60),
              max_bpm = Math_round (maxHR settings * 0.70)\<rparr>,
            \<lparr>label = ''Z3 Tempo'',
              min_bpm = Math_round (maxHR settings * 0.70),
              max_bpm = Math_round (maxHR settings * 0.80)\<rparr>,
            \<lparr>label = ''Z4 Threshold'',
              min_bpm = Math_round (maxHR settings * 0.80),
              max_bpm = Math_round (maxHR settings * 0.90)\<rparr>,
            \<lparr>label = ''Z5 Anaerobic'',
              min_bpm = Math_round (maxHR settings * 0.90),
              max_bpm = maxHR settings\<rparr>])"

text \<open>\<open>Array.prototype.findIndex\<close>; \<open>None\<close> stands for the result \<open>-1\<close>.\<close>

fun findIndex :: "('a \<Rightarrow> bool) \<Rightarrow> 'a list \<Rightarrow> nat option" where
  "findIndex P [] = None"
| "findIndex P (x # xs) = (if P x then Some 0 else map_option Suc (findIndex P xs))"

text \<open>\<open>distribution[i].seconds += duration\<close>.  The array always has five elements, so the
  index is in range at both places the loop writes.\<close>

definition addSeconds :: "nat \<Rightarrow> real \<Rightarrow> HRZoneDistribution list \<Rightarrow> HRZoneDistribution list" where
  "addSeconds i duration distribution =
     distribution[i := (distribution ! i)\<lparr>seconds := seconds (distribution ! i) + duration\<rparr>]"

text \<open>The test of the \<open>findIndex\<close> callback: \<open>avgHr >= d.min && avgHr < (d.max + 1)\<close>.\<close>

definition inZone :: "real \<Rightarrow> 'a ZoneBounds_scheme \<Rightarrow> bool" where
  "inZone avgHr d = (avgHr \<ge> min_bpm d \<and> avgHr < max_bpm d + 1)"

text \<open>One iteration of the loop of \<open>getZoneDistribution\<close> on the pair \<open>(p1, p2)\<close>; the state
  is the array \<open>distribution\<close> and the counter \<open>totalValidSeconds\<close>.\<close>

definition zoneStep ::
  "UserSettings \<Rightarrow> TrackPoint \<Rightarrow> TrackPoint \<Rightarrow> HRZoneDistribution list \<times> real
     \<Rightarrow> HRZoneDistribution list \<times> real" where
  "zoneStep settings p1 p2 st =
     (case st of (distribution, totalValidSeconds) \<Rightarrow>
        if truthy (hr p1) \<and> truthy (hr p2) then
          let avgHr = (the (hr p1) + the (hr p2)) / 2;
              duration = secondsBetween p1 p2
          in if duration > 0 \<and> duration < 30 then
               (case findIndex (inZone avgHr) distribution of
                  Some zoneIdx \<Rightarrow>
                    (addSeconds zoneIdx duration distribution, totalValidSeconds + duration)
                | None \<Rightarrow>
                    if avgHr \<ge> maxHR settings then
                      (addSeconds (length distribution - 1) duration distribution,
                       totalValidSeconds + duration)
                    else (distribution, totalValidSeconds + duration))
             else st
        else st)"

text \<open>The loop \<open>for (let i = 1; i < run.points.length; i++)\<close> over consecutive pairs.\<close>

fun zoneLoop ::
  "UserSettings \<Rightarrow> TrackPoint list \<Rightarrow> HRZoneDistribution list \<times> real
     \<Rightarrow> HRZoneDistribution list \<times> real" where
  "zoneLoop settings (p1 # p2 # ps) st = zoneLoop settings (p2 # ps) (zoneStep settings p1 p2 st)"
| "zoneLoop settings ps st = st"

text \<open>The array \<open>distribution\<close> before the loop: \<open>zones.map((z, i) => ...)\<close>.\<close>

definition initialDistribution :: "ZoneBounds list \<Rightarrow> HRZoneDistribution list" where
  "initialDistribution zones =
     map (\<lambda>(i, z). \<lparr>label = label z, min_bpm = min_bpm z, max_bpm = max_bpm z,
                     zone = i + 1, seconds = 0, percentage = 0\<rparr>)
         (enumerate 0 zones)"

text \<open>The state after the loop: the seconds per zone and \<open>totalValidSeconds\<close>.\<close>

definition classify :: "TrackPoint list \<Rightarrow> UserSettings \<Rightarrow> HRZoneDistribution list \<times> real" where
  "classify pts settings = zoneLoop settings pts (initialDistribution (calculateZones settings), 0)"

definition totalClassified :: "TrackPoint list \<Rightarrow> UserSettings \<Rightarrow> real" where
  "totalClassified pts settings = snd (classify pts settings)"

definition getZoneDistribution :: "TrackPoint list \<Rightarrow> UserSettings \<Rightarrow> HRZoneDistribution list" where
  "getZoneDistribution pts settings =
     (case classify pts settings of (distribution, totalValidSeconds) \<Rightarrow>
        map (\<lambda>d. d\<lparr>percentage :=
                    (if totalValidSeconds > 0 then (seconds d / totalValidSeconds) * 100 else 0)\<rparr>)
            distribution)"

section \<open>Training effect\<close>

definition calculateTrainingEffect :: "TrackPoint list \<Rightarrow> UserSettings \<Rightarrow> real" where
  "calculateTrainingEffect pts settings =
     (let dist = getZoneDistribution pts settings;
          z3 = seconds (dist ! 2);
          z4 = seconds (dist ! 3);
          z5 = seconds (dist ! 4);
          score = (z3 * 0.5 + z4 * 1.5 + z5 * 3.0) / 60;
          effect = (if score < 10 then 1.0 + (score / 10)
                    else if score < 30 then 2.0 + (score - 10) / 20
                    else if score < 60 then 3.0 + (score - 30) / 30
                    else if score < 120 then 4.0 + (score - 60) / 60
                    else 5.0)
      in min 5.0 (Math_round (effect * 10) / 10))"

section \<open>Aerobic decoupling\<close>

text \<open>The four sums of \<open>getEfficiency\<close> after its loop over the consecutive pairs of a
  slice: \<open>(hrSum, distSum, timeSum, count)\<close>.  A pair is taken when the current sample has a
  truthy heart rate and a truthy distance.\<close>

definition efficiencyStep ::
  "TrackPoint \<Rightarrow> TrackPoint \<Rightarrow> real \<times> real \<times> real \<times> nat \<Rightarrow> real \<times> real \<times> real \<times> nat" where
  "efficiencyStep prev p acc =
     (case acc of (hrSum, distSum, timeSum, count) \<Rightarrow>
        if truthy (hr p) \<and> truthy (distance p) then
          (hrSum + the (hr p),
           distSum + (the (distance p) - orZero (distance prev)),
           timeSum + secondsBetween prev p,
           count + 1)
        else acc)"

fun efficiencyLoop ::
  "TrackPoint list \<Rightarrow> real \<times> real \<times> real \<times> nat \<Rightarrow> real \<times> real \<times> real \<times> nat" where
  "efficiencyLoop (prev # p # ps) acc = efficiencyLoop (p # ps) (efficiencyStep prev p acc)"
| "efficiencyLoop ps acc = acc"

definition efficiencySums :: "TrackPoint list \<Rightarrow> real \<times> real \<times> real \<times> nat" where
  "efficiencySums pts = efficiencyLoop pts (0, 0, 0, 0)"

definition getEfficiency :: "TrackPoint list \<Rightarrow> jsnum" where
  "getEfficiency pts =
     (case efficiencySums pts of (hrSum, distSum, timeSum, count) \<Rightarrow>
        if count = 0 \<or> distSum = 0 then Fin 0
        else
          let avgHr = jdiv (Fin hrSum) (Fin (real count));
              paceKmMin = jdiv (Fin (timeSum / 60)) (Fin (distSum / 1000))
          in jdiv (jdiv (Fin 1) paceKmMin) avgHr)"

text \<open>\<open>calculateDecoupling\<close>; \<open>None\<close> is the result \<open>null\<close>.\<close>

definition calculateDecoupling :: "TrackPoint list \<Rightarrow> jsnum option" where
  "calculateDecoupling pts =
     (if length pts < 100 then None
      else
        let midPointIdx = length pts div 2;
            eff1 = getEfficiency (take midPointIdx pts);
            eff2 = getEfficiency (drop midPointIdx pts)
        in if eff1 = Fin 0 \<or> eff2 = Fin 0 then None
           else Some (jmul (jdiv (jsub eff1 eff2) eff1) (Fin 100)))"

section \<open>Trace ingestion\<close>

text \<open>
  \<open>parseTCX\<close> reads the \<open>Trackpoint\<close> elements of the document in order.  The model starts
  from the values that \<open>Date\<close>, \<open>parseFloat\<close> and \<open>parseInt\<close> give for each element, with
  \<open>None\<close> for \<open>NaN\<close>: this is the \<open>point\<close> that the loop pushes, so the input is a list of
  track points.  The other inputs are the file name and the two readings of the clock that
  \<open>new Date()\<close> gives when there is no point.
\<close>

record Lap =
  lapId :: real
  lapDistance :: real
  lapTime :: real
  lapAvgPace :: real
  lapAvgHR :: real

text \<open>The summary of a run; \<open>maxHR_run\<close> is its field \<open>maxHR\<close>.\<close>

record Summary =
  totalDistance :: real
  elapsedTime :: real
  movingTime :: real
  avgHR :: real
  maxHR_run :: real
  totalAscent :: real
  totalDescent :: real
  avgPace :: jsnum
  maxPace :: jsnum
  calories :: real
  fitnessScore :: real
  intensityFactor :: jsnum
  variabilityIndex :: real
  aerobicEfficiency :: real
  movementRatio :: real
  vam :: real
  gap :: "jsnum option"
  decoupling :: "jsnum option"
  trainingEffect :: real

text \<open>\<open>RunData\<close>; \<open>runId\<close> is the field \<open>id\<close>.  The optional \<open>compliance\<close> is not set by the
  parser and is left out.\<close>

record RunData =
  runId :: string
  name :: string
  startTime :: int
  points :: "TrackPoint list"
  laps :: "Lap list"
  summary :: Summary

text \<open>The local variables of \<open>parseTCX\<close> that the loop updates.\<close>

record ParseState =
  points_acc :: "TrackPoint list"
  totalAscent_acc :: real
  totalDescent_acc :: real
  lastAlt :: "real option"
  maxHR_acc :: real
  hrSum_acc :: real
  hrCount :: nat
  movingTime_acc :: real
  maxPace_acc :: jsnum

definition initialParseState :: ParseState where
  "initialParseState =
     \<lparr>points_acc = [], totalAscent_acc = 0, totalDescent_acc = 0, lastAlt = None, maxHR_acc = 0,
      hrSum_acc = 0, hrCount = 0, movingTime_acc = 0, maxPace_acc = Fin 0\<rparr>"

text \<open>The part of the loop body under \<open>if (i > 0)\<close> that looks at the time and distance
  deltas; \<open>prev\<close> is the last point pushed.\<close>

definition paceStep :: "TrackPoint \<Rightarrow> TrackPoint \<Rightarrow> ParseState \<Rightarrow> ParseState" where
  "paceStep prev tp st =
     (let timeDiff = secondsBetween prev tp;
          distDiff = orZero (distance tp) - orZero (distance prev)
      in if timeDiff > 0 \<and> timeDiff < 15 then
           let st1 = (if distDiff / timeDiff > 0.5
                      then st\<lparr>movingTime_acc := movingTime_acc st + timeDiff\<rparr> else st);
               currentPace = jdiv (Fin timeDiff) (Fin (distDiff / 1000))
           in if jless (Fin 120) currentPace \<and> jless currentPace (Fin 1200) then
                (if maxPace_acc st1 = Fin 0 \<or> jless currentPace (maxPace_acc st1)
                 then st1\<lparr>maxPace_acc := currentPace\<rparr> else st1)
              else st1
         else st)"

text \<open>The part under \<open>if (i > 0)\<close> that looks at the altitude.\<close>

definition climbStep :: "TrackPoint \<Rightarrow> ParseState \<Rightarrow> ParseState" where
  "climbStep tp st =
     (case (altitude tp, lastAlt st) of
        (Some alt, Some lastAltitude) \<Rightarrow>
          let diff = alt - lastAltitude
          in if diff > 0 then st\<lparr>totalAscent_acc := totalAscent_acc st + diff\<rparr>
             else if diff < 0 then st\<lparr>totalDescent_acc := totalDescent_acc st + \<bar>diff\<bar>\<rparr>
             else st
      | _ \<Rightarrow> st)"

text \<open>One call of the \<open>forEach\<close> callback.  The index \<open>i\<close> is the number of points pushed so
  far, so \<open>i > 0\<close> holds exactly when there is a last point.\<close>

definition parseStep :: "ParseState \<Rightarrow> TrackPoint \<Rightarrow> ParseState" where
  "parseStep st tp =
     (let st1 = (if points_acc st \<noteq> []
                 then climbStep tp (paceStep (last (points_acc st)) tp st) else st);
          st2 = (case altitude tp of Some alt \<Rightarrow> st1\<lparr>lastAlt := Some alt\<rparr> | None \<Rightarrow> st1);
          st3 = (case hr tp of
                   Some h \<Rightarrow> st2\<lparr>maxHR_acc := max (maxHR_acc st2) h,
                                 hrSum_acc := hrSum_acc st2 + h,
                                 hrCount := hrCount st2 + 1\<rparr>
                 | None \<Rightarrow> st2)
      in st3\<lparr>points_acc := points_acc st3 @ [tp]\<rparr>)"

text \<open>Decimal digits of a number, for the identifier \<open>run_<startTime>\<close>.\<close>

fun showNat :: "nat \<Rightarrow> string" where
  "showNat n =
     (if n < 10 then [char_of (48 + n)]
      else showNat (n div 10) @ [char_of (48 + n mod 10)])"

definition showInt :: "int \<Rightarrow> string" where
  "showInt i = (if i < 0 then CHR ''-'' # showNat (nat (- i)) else showNat (nat i))"

text \<open>\<open>s.replace(pat, rep)\<close> with a string pattern: the first occurrence is replaced.\<close>

fun replaceFirst :: "string \<Rightarrow> string \<Rightarrow> string \<Rightarrow> string" where
  "replaceFirst pat rep [] = (if pat = [] then rep else [])"
| "replaceFirst pat rep (c # cs) =
     (if take (length pat) (c # cs) = pat then rep @ drop (length pat) (c # cs)
      else c # replaceFirst pat rep cs)"

text \<open>The only failure that the specification names for ingestion.  \<open>parseTCX\<close> itself has
  no failing path: nothing in it throws or rejects.\<close>

datatype ingestError = NoValidSamples

definition parseTCX :: "string \<Rightarrow> int \<times> int \<Rightarrow> TrackPoint list \<Rightarrow> ingestError + RunData" where
  "parseTCX fileName clock trackpoints =
     (let st = foldl parseStep initialParseState trackpoints;
          points = points_acc st;
          movingTime = movingTime_acc st;
          hrSum = hrSum_acc st;
          totalAscent = totalAscent_acc st;
          totalDistance = (if length points > 0 then orZero (distance (last points)) else 0);
          startTime = (if points \<noteq> [] then time (hd points) else fst clock);
          endTime = (if points \<noteq> [] then time (last points) else snd clock);
          elapsedTime = real_of_int (endTime - startTime) / 1000;
          avgHR = (if hrCount st > 0 then hrSum / real (hrCount st) else 0);
          avgPace = (if movingTime > 0
                     then jdiv (Fin movingTime) (Fin (totalDistance / 1000)) else Fin 0);
          aerobicEfficiency = (if avgHR > 0 then (totalDistance / hrSum) * 100 else 0);
          movementRatio = (if elapsedTime > 0 then (movingTime / elapsedTime) * 100 else 0);
          vam = (if movingTime > 0 then (totalAscent / movingTime) * 3600 else 0);
          thresholdPace = 300;
          intensityFactor =
            (if jless (Fin 0) avgPace then jdiv (Fin thresholdPace) avgPace else Fin 0)
      in Inr \<lparr>runId = ''run_'' @ showInt startTime,
              name = replaceFirst ''.tcx'' [] fileName,
              startTime = startTime,
              points = points,
              laps = [],
              summary =
                \<lparr>totalDistance = totalDistance,
                 elapsedTime = elapsedTime,
                 movingTime = movingTime,
                 avgHR = Math_round avgHR,
                 maxHR_run = maxHR_acc st,
                 totalAscent = totalAscent,
                 totalDescent = totalDescent_acc st,
                 avgPace = avgPace,
                 maxPace = maxPace_acc st,
                 calories = Math_round ((totalDistance / 1000) * 70),
                 fitnessScore = Math_round ((avgHR * (movingTime / 3600)) / 10),
                 intensityFactor = intensityFactor,
                 variabilityIndex = 1.05,
                 aerobicEfficiency = aerobicEfficiency,
                 movementRatio = movementRatio,
                 vam = vam,
                 gap = None,
                 decoupling = None,
                 trainingEffect = 0\<rparr>\<rparr>)"

section \<open>Notions used to state the properties\<close>

text \<open>The consecutive pairs \<open>(points[i-1], points[i])\<close> that the loops visit, in order.\<close>

definition pairs :: "'a list \<Rightarrow> ('a \<times> 'a) list" where
  "pairs xs = zip xs (tl xs)"

text \<open>A pair is counted by the zone classification when both samples carry a heart rate
  and the time delta lies strictly between 0 and 30 seconds.\<close>

definition counted :: "TrackPoint \<Rightarrow> TrackPoint \<Rightarrow> bool" where
  "counted p1 p2 =
     (truthy (hr p1) \<and> truthy (hr p2) \<and> 0 < secondsBetween p1 p2 \<and> secondsBetween p1 p2 < 30)"

definition pairAvgHr :: "TrackPoint \<Rightarrow> TrackPoint \<Rightarrow> real" where
  "pairAvgHr p1 p2 = (the (hr p1) + the (hr p2)) / 2"

text \<open>Zone \<open>k + 1\<close> is the one credited for an average heart rate \<open>h\<close>: it is the first zone
  whose interval \<open>[min, max + 1)\<close> contains \<open>h\<close>, or it is zone 5 when no interval contains
  \<open>h\<close> and \<open>h\<close> is at or above \<open>maxHR\<close>.\<close>

definition creditedTo :: "UserSettings \<Rightarrow> real \<Rightarrow> nat \<Rightarrow> bool" where
  "creditedTo settings h k =
     (let zones = calculateZones settings
      in (k < 5 \<and> inZone h (zones ! k) \<and> (\<forall>j\<in>{..<k}. \<not> inZone h (zones ! j)))
         \<or> (k = 4 \<and> (\<forall>j\<in>{..<5}. \<not> inZone h (zones ! j)) \<and> h \<ge> maxHR settings))"

text \<open>The seconds that the pair \<open>(p1, p2)\<close> adds to the total classified time.\<close>

definition countedSeconds :: "TrackPoint \<times> TrackPoint \<Rightarrow> real" where
  "countedSeconds pp = (case pp of (p1, p2) \<Rightarrow> if counted p1 p2 then secondsBetween p1 p2 else 0)"

text \<open>The seconds that the pair \<open>(p1, p2)\<close> adds to zone \<open>k + 1\<close>.\<close>

definition credit :: "UserSettings \<Rightarrow> nat \<Rightarrow> TrackPoint \<times> TrackPoint \<Rightarrow> real" where
  "credit settings k pp =
     (case pp of (p1, p2) \<Rightarrow>
        if counted p1 p2 \<and> creditedTo settings (pairAvgHr p1 p2) k
        then secondsBetween p1 p2 else 0)"

text \<open>The arrays \<open>ds\<close> and \<open>zs\<close> list the same bounds.\<close>

definition sameBounds :: "HRZoneDistribution list \<Rightarrow> ZoneBounds list \<Rightarrow> bool" where
  "sameBounds ds zs =
     (length ds = length zs \<and>
      (\<forall>j<length zs. min_bpm (ds ! j) = min_bpm (zs ! j) \<and> max_bpm (ds ! j) = max_bpm (zs ! j)))"

text \<open>An average heart rate that some zone receives: an interval contains it or it is at
  or above \<open>maxHR\<close>.\<close>

definition creditable :: "UserSettings \<Rightarrow> real \<Rightarrow> bool" where
  "creditable settings h =
     ((\<exists>j\<in>{..<5}. inZone h (calculateZones settings ! j)) \<or> h \<ge> maxHR settings)"





text \<open>The piecewise scale of the training effect on a load score, defined from 0 upwards.\<close>

definition effectScale :: "real \<Rightarrow> real option" where
  "effectScale score =
     (if 0 \<le> score \<and> score < 10 then Some (1.0 + score / 10)
      else if 10 \<le> score \<and> score < 30 then Some (2.0 + (score - 10) / 20)
      else if 30 \<le> score \<and> score < 60 then Some (3.0 + (score - 30) / 30)
      else if 60 \<le> score \<and> score < 120 then Some (4.0 + (score - 60) / 60)
      else if 120 \<le> score then Some 5.0
      else None)"

text \<open>The seconds that the pair \<open>(prev, tp)\<close> adds to the moving time during ingestion:
  its time delta, when the delta lies strictly between 0 and 15 seconds and the average
  speed over the interval exceeds 0.5 m/s.\<close>

definition movingSeconds :: "TrackPoint \<times> TrackPoint \<Rightarrow> real" where
  "movingSeconds pp =
     (case pp of (prev, tp) \<Rightarrow>
        if 0 < secondsBetween prev tp \<and> secondsBetween prev tp < 15
           \<and> (orZero (distance tp) - orZero (distance prev)) / secondsBetween prev tp > 0.5
        then secondsBetween prev tp else 0)"

section \<open>Sample inputs\<close>

text \<open>A sample that carries only a timestamp and a cumulative distance, which may be absent.\<close>

definition distPoint :: "int \<Rightarrow> real option \<Rightarrow> TrackPoint" where
  "distPoint t d = \<lparr>time = t, lat = None, lng = None, altitude = None, distance = d, hr = None\<rparr>"

text \<open>A sample that carries only a timestamp and a heart rate.\<close>

definition hrPoint :: "int \<Rightarrow> real \<Rightarrow> TrackPoint" where
  "hrPoint t h = \<lparr>time = t, lat = None, lng = None, altitude = None, distance = None, hr = Some h\<rparr>"

text \<open>A sample that carries a timestamp, a cumulative distance and a heart rate.\<close>

definition runPoint :: "int \<Rightarrow> real \<Rightarrow> real \<Rightarrow> TrackPoint" where
  "runPoint t d h =
     \<lparr>time = t, lat = None, lng = None, altitude = None, distance = Some d, hr = Some h\<rparr>"

text \<open>A run of 51 samples at 150 bpm and, after a gap of 30 seconds, 26 samples at 170 bpm,
  all 24 seconds apart.\<close>

definition tempoRun :: "TrackPoint list" where
  "tempoRun = map (\<lambda>i. hrPoint (int i * 24000) 150) [0..<51]
            @ map (\<lambda>i. hrPoint (1230000 + int i * 24000) 170) [0..<26]"

text \<open>The first \<open>n\<close> samples of a run at one sample per second and 3 m/s, at 150 bpm for the
  first 50 samples and 160 bpm afterwards.\<close>

definition steadyRun :: "nat \<Rightarrow> TrackPoint list" where
  "steadyRun n =
     map (\<lambda>i. runPoint (int i * 1000) (real i * 3) (if i < 50 then 150 else 160)) [0..<n]"

text \<open>A run of 100 samples that all carry the same timestamp, one metre apart, at 150 bpm.\<close>

definition frozenClockRun :: "TrackPoint list" where
  "frozenClockRun = map (\<lambda>i. runPoint 0 (real i + 1) 150) [0..<100]"

section \<open>Properties\<close>

subsection \<open>Grade adjusted pace\<close>





subsection \<open>Zone classification: the loop\<close>

lemma findIndex_None_iff: "findIndex P xs = None \<longleftrightarrow> (\<forall>j<length xs. \<not> P (xs ! j))"
proof (induction xs)
  case Nil
  show ?case by simp
next
  case (Cons x xs)
  show ?case using Cons.IH by (auto simp: nth_Cons' All_less_Suc2 split: if_splits)
qed

lemma findIndex_Some_iff:
  "findIndex P xs = Some k \<longleftrightarrow> k < length xs \<and> P (xs ! k) \<and> (\<forall>j<k. \<not> P (xs ! j))"
proof (induction xs arbitrary: k)
  case Nil
  show ?case by simp
next
  case (Cons x xs)
  show ?case
  proof (cases k)
    case 0
    then show ?thesis by auto
  next
    case (Suc m)
    have "(\<forall>j<Suc m. \<not> P ((x # xs) ! j)) \<longleftrightarrow> \<not> P x \<and> (\<forall>j<m. \<not> P (xs ! j))"
      by (simp add: All_less_Suc2)
    then show ?thesis using Suc Cons.IH [of m] by auto
  qed
qed

lemma calculateZones_length: "length (calculateZones settings) = 5"
  by (simp add: calculateZones_def Let_def)

lemma initialDistribution_length: "length (initialDistribution zs) = length zs"
  by (simp add: initialDistribution_def)

lemma initialDistribution_nth:
  "j < length zs \<Longrightarrow> initialDistribution zs ! j =
     \<lparr>label = label (zs ! j), min_bpm = min_bpm (zs ! j), max_bpm = max_bpm (zs ! j),
      zone = j + 1, seconds = 0, percentage = 0\<rparr>"
  by (simp add: initialDistribution_def nth_enumerate_eq)

lemma sameBounds_initial: "sameBounds (initialDistribution zs) zs"
  by (simp add: sameBounds_def initialDistribution_length initialDistribution_nth)

lemma sameBounds_addSeconds: "sameBounds ds zs \<Longrightarrow> sameBounds (addSeconds i d ds) zs"
  by (cases "i < length ds") (auto simp: sameBounds_def addSeconds_def nth_list_update)

lemma sameBounds_inZone:
  "sameBounds ds zs \<Longrightarrow> j < length zs \<Longrightarrow> inZone h (ds ! j) = inZone h (zs ! j)"
  by (simp add: sameBounds_def inZone_def)

lemma seconds_addSeconds:
  "k < length ds \<Longrightarrow>
     seconds (addSeconds i d ds ! k) = seconds (ds ! k) + (if k = i then d else 0)"
  by (cases "i < length ds") (auto simp: addSeconds_def nth_list_update)


lemma creditedTo_first:
  assumes "z < 5" "inZone h (calculateZones s ! z)" "\<forall>j<z. \<not> inZone h (calculateZones s ! j)"
  shows "creditedTo s h k \<longleftrightarrow> k = z"
proof
  assume "creditedTo s h k"
  then have "k < 5 \<and> inZone h (calculateZones s ! k) \<and> (\<forall>j<k. \<not> inZone h (calculateZones s ! j))"
    using assms by (auto simp: creditedTo_def Let_def)
  then show "k = z" using assms by (meson linorder_neqE_nat)
next
  assume "k = z"
  then show "creditedTo s h k" using assms by (simp add: creditedTo_def Let_def)
qed

lemma creditedTo_none:
  assumes "\<forall>j<5. \<not> inZone h (calculateZones s ! j)"
  shows "creditedTo s h k \<longleftrightarrow> k = 4 \<and> h \<ge> maxHR s"
  using assms by (auto simp: creditedTo_def Let_def)


lemma zoneStep_not_counted: "\<not> counted p1 p2 \<Longrightarrow> zoneStep s p1 p2 st = st"
  by (auto simp: zoneStep_def counted_def Let_def split: prod.splits)

lemma zoneStep_counted:
  "counted p1 p2 \<Longrightarrow> zoneStep s p1 p2 (ds, t) =
     (case findIndex (inZone (pairAvgHr p1 p2)) ds of
        Some zoneIdx \<Rightarrow> addSeconds zoneIdx (secondsBetween p1 p2) ds
      | None \<Rightarrow> if pairAvgHr p1 p2 \<ge> maxHR s
                then addSeconds (length ds - 1) (secondsBetween p1 p2) ds else ds,
      t + secondsBetween p1 p2)"
  by (auto simp: zoneStep_def counted_def pairAvgHr_def Let_def split: option.splits)

lemma zoneStep_snd: "snd (zoneStep s p1 p2 (ds, t)) = t + countedSeconds (p1, p2)"
  by (cases "counted p1 p2") (simp_all add: zoneStep_counted zoneStep_not_counted countedSeconds_def)

lemma zoneStep_sameBounds:
  "sameBounds ds zs \<Longrightarrow> sameBounds (fst (zoneStep s p1 p2 (ds, t))) zs"
  by (cases "counted p1 p2")
     (auto simp: zoneStep_counted zoneStep_not_counted sameBounds_addSeconds split: option.splits)

lemma zoneStep_seconds:
  assumes sb: "sameBounds ds (calculateZones s)" and k: "k < 5"
  shows "seconds (fst (zoneStep s p1 p2 (ds, t)) ! k) = seconds (ds ! k) + credit s k (p1, p2)"
proof (cases "counted p1 p2")
  case False
  then show ?thesis by (simp add: zoneStep_not_counted credit_def)
next
  case True
  have len: "length ds = 5" using sb by (simp add: sameBounds_def calculateZones_length)
  have iz: "inZone h (ds ! j) = inZone h (calculateZones s ! j)" if "j < 5" for j h
    using sameBounds_inZone [OF sb] that by (simp add: calculateZones_length)
  show ?thesis
  proof (cases "findIndex (inZone (pairAvgHr p1 p2)) ds")
    case None
    then have "\<forall>j<5. \<not> inZone (pairAvgHr p1 p2) (calculateZones s ! j)"
      using iz len by (simp add: findIndex_None_iff)
    then have "creditedTo s (pairAvgHr p1 p2) k \<longleftrightarrow> k = 4 \<and> pairAvgHr p1 p2 \<ge> maxHR s"
      by (rule creditedTo_none)
    then show ?thesis using True None k len
      by (simp add: zoneStep_counted credit_def seconds_addSeconds)
  next
    case (Some z)
    then have z: "z < 5" "inZone (pairAvgHr p1 p2) (calculateZones s ! z)"
      "\<forall>j<z. \<not> inZone (pairAvgHr p1 p2) (calculateZones s ! j)"
      using iz len by (auto simp: findIndex_Some_iff)
    have "creditedTo s (pairAvgHr p1 p2) k \<longleftrightarrow> k = z"
      using z by (rule creditedTo_first)
    then show ?thesis using True Some k len
      by (simp add: zoneStep_counted credit_def seconds_addSeconds)
  qed
qed

lemma pairs_Cons2: "pairs (p1 # p2 # ps) = (p1, p2) # pairs (p2 # ps)"
  by (simp add: pairs_def)

lemma pairs_short: "pairs [] = []" "pairs [p] = []"
  by (simp_all add: pairs_def)

lemma zoneLoop_invariant:
  assumes "sameBounds ds (calculateZones s)"
  shows "sameBounds (fst (zoneLoop s pts (ds, t))) (calculateZones s)
     \<and> snd (zoneLoop s pts (ds, t)) = t + sum_list (map countedSeconds (pairs pts))
     \<and> (\<forall>k<5. seconds (fst (zoneLoop s pts (ds, t)) ! k)
                 = seconds (ds ! k) + sum_list (map (credit s k) (pairs pts)))"
  using assms
proof (induction s pts "(ds, t)" arbitrary: ds t rule: zoneLoop.induct)
  case (1 settings p1 p2 ps)
  obtain ds' t' where st: "zoneStep settings p1 p2 (ds, t) = (ds', t')"
    by (cases "zoneStep settings p1 p2 (ds, t)")
  have sb': "sameBounds ds' (calculateZones settings)"
    using zoneStep_sameBounds [OF "1.prems", of settings p1 p2 t] st by simp
  have t': "t' = t + countedSeconds (p1, p2)"
    using zoneStep_snd [of settings p1 p2 ds t] st by simp
  have sec: "seconds (ds' ! k) = seconds (ds ! k) + credit settings k (p1, p2)" if "k < 5" for k
    using zoneStep_seconds [OF "1.prems" that, of p1 p2 t] st by simp
  from "1.hyps" [OF st sb'] show ?case
    by (simp add: st pairs_Cons2 t' sec)
qed (simp_all add: pairs_short)



lemma sum_if_eq: "(z::nat) < n \<Longrightarrow> (\<Sum>k<n. if k = z then d else 0) = (d::real)"
  by simp

lemma credit_sum:
  "(\<Sum>k<(5::nat). credit s k (p1, p2))
     = (if counted p1 p2 \<and> creditable s (pairAvgHr p1 p2) then secondsBetween p1 p2 else 0)"
proof (cases "counted p1 p2")
  case False
  then show ?thesis by (simp add: credit_def)
next
  case True
  let ?h = "pairAvgHr p1 p2"
  show ?thesis
  proof (cases "findIndex (inZone ?h) (calculateZones s)")
    case None
    then have no: "\<forall>j<5. \<not> inZone ?h (calculateZones s ! j)"
      by (simp add: findIndex_None_iff calculateZones_length)
    then have "creditedTo s ?h k \<longleftrightarrow> k = 4 \<and> ?h \<ge> maxHR s" for k
      by (rule creditedTo_none)
    then have "(\<Sum>k<(5::nat). credit s k (p1, p2))
        = (\<Sum>k<(5::nat). if k = 4 then (if ?h \<ge> maxHR s then secondsBetween p1 p2 else 0) else 0)"
      using True by (intro sum.cong) (auto simp: credit_def)
    also have "\<dots> = (if ?h \<ge> maxHR s then secondsBetween p1 p2 else 0)"
      by (rule sum_if_eq) simp
    finally show ?thesis using True no by (auto simp: creditable_def)
  next
    case (Some z)
    then have z: "z < 5" "inZone ?h (calculateZones s ! z)"
      "\<forall>j<z. \<not> inZone ?h (calculateZones s ! j)"
      by (auto simp: findIndex_Some_iff calculateZones_length)
    have "creditedTo s ?h k \<longleftrightarrow> k = z" for k
      using z by (rule creditedTo_first)
    then have "(\<Sum>k<(5::nat). credit s k (p1, p2)) = (\<Sum>k<(5::nat). if k = z then secondsBetween p1 p2 else 0)"
      using True by (intro sum.cong) (auto simp: credit_def)
    also have "\<dots> = secondsBetween p1 p2"
      using z(1) by (rule sum_if_eq)
    finally show ?thesis using True z by (auto simp: creditable_def)
  qed
qed

lemma credit_sum_le: "(\<Sum>k<(5::nat). credit s k pp) \<le> countedSeconds pp"
  by (cases pp) (auto simp: credit_sum countedSeconds_def counted_def)

lemma credit_nonneg: "0 \<le> credit s k pp"
  by (cases pp) (auto simp: credit_def counted_def)

lemma countedSeconds_nonneg: "0 \<le> countedSeconds pp"
  by (cases pp) (auto simp: countedSeconds_def counted_def)

lemma sum_list_swap:
  "(\<Sum>k<(n::nat). sum_list (map (f k) ps)) = sum_list (map (\<lambda>pp. \<Sum>k<n. (f k pp :: real)) ps)"
  by (induction ps) (simp_all add: sum.distrib)

lemma sum_list_five:
  "length (xs :: real list) = 5 \<Longrightarrow> sum_list xs = (\<Sum>k<(5::nat). xs ! k)"
  by (simp add: sum_list_sum_nth atLeast0LessThan)

text \<open>An average at or above the lower bound of zone 1 is always credited: the intervals
  of the five zones are chained, and zone 5 takes everything from \<open>maxHR\<close> up.\<close>

lemma creditable_above_zone1:
  assumes "min_bpm (calculateZones s ! 0) \<le> h"
  shows "creditable s h"
proof (rule ccontr)
  assume n: "\<not> creditable s h"
  then have lt: "h < maxHR s" and no: "\<And>j. j < 5 \<Longrightarrow> \<not> inZone h (calculateZones s ! j)"
    by (auto simp: creditable_def)
  from no [of 0] no [of 1] no [of 2] no [of 3] no [of 4] assms lt
  show False
    by (auto simp: calculateZones_def Let_def inZone_def split: if_splits)
qed

lemma classify_facts:
  assumes "classify pts s = (ds, t)"
  shows "length ds = 5"
    and "t = sum_list (map countedSeconds (pairs pts))"
    and "k < 5 \<Longrightarrow> seconds (ds ! k) = sum_list (map (credit s k) (pairs pts))"
proof -
  have inv: "sameBounds ds (calculateZones s)
     \<and> t = 0 + sum_list (map countedSeconds (pairs pts))
     \<and> (\<forall>k<5. seconds (ds ! k)
           = seconds (initialDistribution (calculateZones s) ! k) + sum_list (map (credit s k) (pairs pts)))"
    using zoneLoop_invariant [OF sameBounds_initial, of s pts 0] assms
    by (simp add: classify_def)
  show "length ds = 5"
    using inv by (simp add: sameBounds_def calculateZones_length)
  show "t = sum_list (map countedSeconds (pairs pts))"
    using inv by simp
  show "seconds (ds ! k) = sum_list (map (credit s k) (pairs pts))" if "k < 5"
    using inv that by (simp add: initialDistribution_nth calculateZones_length)
qed

lemma getZoneDistribution_length: "length (getZoneDistribution pts s) = 5"
  by (cases "classify pts s") (simp add: getZoneDistribution_def classify_facts(1))

lemma totalClassified_eq: "totalClassified pts s = sum_list (map countedSeconds (pairs pts))"
  by (cases "classify pts s") (simp add: totalClassified_def classify_facts(2))

lemma getZoneDistribution_seconds:
  "k < 5 \<Longrightarrow> seconds (getZoneDistribution pts s ! k) = sum_list (map (credit s k) (pairs pts))"
  by (cases "classify pts s")
     (simp add: getZoneDistribution_def classify_facts(1) classify_facts(3))

lemma getZoneDistribution_percentage:
  "map percentage (getZoneDistribution pts s)
     = map (\<lambda>d. if totalClassified pts s > 0 then (seconds d / totalClassified pts s) * 100 else 0)
           (getZoneDistribution pts s)"
  by (cases "classify pts s") (simp add: getZoneDistribution_def totalClassified_def)

lemma totalClassified_nonneg: "0 \<le> totalClassified pts s"
  unfolding totalClassified_eq by (rule sum_list_nonneg) (auto simp: countedSeconds_nonneg)

lemma seconds_nonneg: "k < 5 \<Longrightarrow> 0 \<le> seconds (getZoneDistribution pts s ! k)"
  unfolding getZoneDistribution_seconds by (rule sum_list_nonneg) (auto simp: credit_nonneg)

lemma seconds_total:
  "sum_list (map seconds (getZoneDistribution pts s))
     = sum_list (map (\<lambda>pp. \<Sum>k<(5::nat). credit s k pp) (pairs pts))"
proof -
  have "sum_list (map seconds (getZoneDistribution pts s))
      = (\<Sum>k<(5::nat). map seconds (getZoneDistribution pts s) ! k)"
    by (rule sum_list_five) (simp add: getZoneDistribution_length)
  also have "\<dots> = (\<Sum>k<(5::nat). sum_list (map (credit s k) (pairs pts)))"
    by (intro sum.cong) (simp_all add: getZoneDistribution_length getZoneDistribution_seconds)
  also have "\<dots> = sum_list (map (\<lambda>pp. \<Sum>k<(5::nat). credit s k pp) (pairs pts))"
    by (rule sum_list_swap)
  finally show ?thesis .
qed

lemma seconds_total_le: "sum_list (map seconds (getZoneDistribution pts s)) \<le> totalClassified pts s"
  unfolding seconds_total totalClassified_eq
  by (rule sum_list_mono) (rule credit_sum_le)

lemma seconds_total_nonneg: "0 \<le> sum_list (map seconds (getZoneDistribution pts s))"
  unfolding seconds_total
  by (rule sum_list_nonneg) (auto intro!: sum_nonneg credit_nonneg)

lemma seconds_total_eq:
  assumes "\<forall>(p1, p2)\<in>set (pairs pts). counted p1 p2 \<longrightarrow> creditable s (pairAvgHr p1 p2)"
  shows "sum_list (map seconds (getZoneDistribution pts s)) = totalClassified pts s"
proof -
  have "(\<Sum>k<(5::nat). credit s k pp) = countedSeconds pp" if "pp \<in> set (pairs pts)" for pp
    using assms that by (cases pp) (auto simp: credit_sum countedSeconds_def)
  then have "map (\<lambda>pp. \<Sum>k<(5::nat). credit s k pp) (pairs pts) = map countedSeconds (pairs pts)"
    by simp
  then show ?thesis
    unfolding seconds_total totalClassified_eq by (rule arg_cong)
qed

lemma percentage_scale:
  "sum_list (map (\<lambda>d. (seconds d / T) * 100) ds) = sum_list (map seconds ds) / T * (100::real)"
  by (induction ds) (simp_all add: algebra_simps add_divide_distrib)

lemma percentage_total:
  "0 < totalClassified pts s \<Longrightarrow>
     sum_list (map percentage (getZoneDistribution pts s))
       = sum_list (map seconds (getZoneDistribution pts s)) / totalClassified pts s * 100"
proof -
  assume pos: "0 < totalClassified pts s"
  have "map percentage (getZoneDistribution pts s)
      = map (\<lambda>d. (seconds d / totalClassified pts s) * 100) (getZoneDistribution pts s)"
    using pos by (subst getZoneDistribution_percentage) simp
  then show ?thesis by (simp only: percentage_scale)
qed

lemma percentage_zero:
  "totalClassified pts s = 0 \<Longrightarrow> d \<in> set (getZoneDistribution pts s) \<Longrightarrow> percentage d = 0"
proof -
  assume z: "totalClassified pts s = 0" and d: "d \<in> set (getZoneDistribution pts s)"
  then have "percentage d \<in> set (map percentage (getZoneDistribution pts s))" by simp
  then show ?thesis using z by (subst (asm) getZoneDistribution_percentage) auto
qed


subsection \<open>Zone classification: the claims\<close>

text \<open>
  Claim C6.  The zone classification counts exactly the consecutive pairs in which both
  samples carry a heart rate and whose time delta lies strictly between 0 and 30 seconds.
  The seconds of each zone are the durations of the counted pairs credited to it: a pair is
  credited to the (first) zone whose interval \<open>[min, max + 1)\<close> contains its average heart
  rate, and to zone 5 when no interval contains the average and the average is at or above
  \<open>maxHR\<close>; the total classified time is the duration of all counted pairs.
\<close>

theorem getZoneDistribution_classification:
  "length (getZoneDistribution pts s) = 5
   \<and> totalClassified pts s
       = sum_list (map (\<lambda>(p1, p2). if counted p1 p2 then secondsBetween p1 p2 else 0) (pairs pts))
   \<and> (\<forall>k\<in>{..<5}. seconds (getZoneDistribution pts s ! k)
         = sum_list (map (\<lambda>(p1, p2). if counted p1 p2 \<and> creditedTo s (pairAvgHr p1 p2) k
                                      then secondsBetween p1 p2 else 0) (pairs pts)))"
proof -
  have cs: "countedSeconds = (\<lambda>(p1, p2). if counted p1 p2 then secondsBetween p1 p2 else 0)"
    by (simp add: countedSeconds_def fun_eq_iff)
  have cr: "credit s k = (\<lambda>(p1, p2). if counted p1 p2 \<and> creditedTo s (pairAvgHr p1 p2) k
                                      then secondsBetween p1 p2 else 0)" for k
    by (simp add: credit_def fun_eq_iff)
  have c1: "length (getZoneDistribution pts s) = 5"
    by (rule getZoneDistribution_length)
  have c2: "totalClassified pts s
       = sum_list (map (\<lambda>(p1, p2). if counted p1 p2 then secondsBetween p1 p2 else 0) (pairs pts))"
    by (simp add: totalClassified_eq cs)
  have c3: "seconds (getZoneDistribution pts s ! k)
         = sum_list (map (\<lambda>(p1, p2). if counted p1 p2 \<and> creditedTo s (pairAvgHr p1 p2) k
                                      then secondsBetween p1 p2 else 0) (pairs pts))" if "k < 5" for k
    using that by (simp add: getZoneDistribution_seconds cr)
  from c1 c2 c3 show ?thesis by simp
qed

theorem getZoneDistribution_classification_witness:
  "seconds (getZoneDistribution
       [hrPoint 0 150, hrPoint 1000 150, hrPoint 2000 170, hrPoint 3000 80, hrPoint 4000 80,
        hrPoint 5000 250, hrPoint 6000 260, hrPoint 36000 260]
       \<lparr>maxHR = 200, restingHR = 50, zoneMethod = MAX_HR\<rparr> ! 2) = 2
   \<and> sum_list (map (\<lambda>(p1, p2). if counted p1 p2 \<and>
                       creditedTo \<lparr>maxHR = 200, restingHR = 50, zoneMethod = MAX_HR\<rparr> (pairAvgHr p1 p2) 2
                                 then secondsBetween p1 p2 else 0)
        (pairs [hrPoint 0 150, hrPoint 1000 150, hrPoint 2000 170, hrPoint 3000 80, hrPoint 4000 80,
        hrPoint 5000 250, hrPoint 6000 260, hrPoint 36000 260])) = 2"
proof -
  let ?s = "\<lparr>maxHR = 200, restingHR = 50, zoneMethod = MAX_HR\<rparr>"
  let ?pts = "[hrPoint 0 150, hrPoint 1000 150, hrPoint 2000 170, hrPoint 3000 80, hrPoint 4000 80,
        hrPoint 5000 250, hrPoint 6000 260, hrPoint 36000 260]"
  have a: "seconds (getZoneDistribution ?pts ?s ! 2) = 2" by code_simp
  have "(2::nat) \<in> {..<5}" by simp
  with getZoneDistribution_classification [of ?pts ?s]
  have "seconds (getZoneDistribution ?pts ?s ! 2)
      = sum_list (map (\<lambda>(p1, p2). if counted p1 p2 \<and> creditedTo ?s (pairAvgHr p1 p2) 2
                                 then secondsBetween p1 p2 else 0) (pairs ?pts))"
    by blast
  with a show ?thesis by simp
qed

text \<open>
  Claim C3, as the code has it.  The total classified time is never negative.  When it is 0,
  all five percentages are 0.  When it is greater than 0, the percentages sum to 100 times the
  seconds credited to the zones over the total classified time, a value between 0 and 100;
  the sum is 100 when every counted pair has an average heart rate at or above the lower
  bound of zone 1 (or at or above \<open>maxHR\<close>).
\<close>

theorem zone_percentages:
  "0 \<le> totalClassified pts s
   \<and> (totalClassified pts s = 0 \<longrightarrow> (\<forall>d\<in>set (getZoneDistribution pts s). percentage d = 0))
   \<and> (0 < totalClassified pts s \<longrightarrow>
        sum_list (map percentage (getZoneDistribution pts s))
          = sum_list (map seconds (getZoneDistribution pts s)) / totalClassified pts s * 100
        \<and> 0 \<le> sum_list (map percentage (getZoneDistribution pts s))
        \<and> sum_list (map percentage (getZoneDistribution pts s)) \<le> 100)
   \<and> (0 < totalClassified pts s
        \<and> (\<forall>(p1, p2)\<in>set (pairs pts). counted p1 p2 \<longrightarrow>
              min_bpm (calculateZones s ! 0) \<le> pairAvgHr p1 p2 \<or> maxHR s \<le> pairAvgHr p1 p2)
        \<longrightarrow> sum_list (map percentage (getZoneDistribution pts s)) = 100)"
proof (intro conjI impI)
  show "0 \<le> totalClassified pts s" by (rule totalClassified_nonneg)
  show "\<forall>d\<in>set (getZoneDistribution pts s). percentage d = 0" if "totalClassified pts s = 0"
    using that by (simp add: percentage_zero)
  show "sum_list (map percentage (getZoneDistribution pts s))
          = sum_list (map seconds (getZoneDistribution pts s)) / totalClassified pts s * 100"
    if "0 < totalClassified pts s"
    using that by (rule percentage_total)
  show "0 \<le> sum_list (map percentage (getZoneDistribution pts s))" if "0 < totalClassified pts s"
    using that seconds_total_nonneg [of pts s] by (simp add: percentage_total)
  show "sum_list (map percentage (getZoneDistribution pts s)) \<le> 100" if "0 < totalClassified pts s"
    using that seconds_total_le [of pts s] by (simp add: percentage_total pos_divide_le_eq)
  show "sum_list (map percentage (getZoneDistribution pts s)) = 100"
    if h: "0 < totalClassified pts s
        \<and> (\<forall>(p1, p2)\<in>set (pairs pts). counted p1 p2 \<longrightarrow>
              min_bpm (calculateZones s ! 0) \<le> pairAvgHr p1 p2 \<or> maxHR s \<le> pairAvgHr p1 p2)"
  proof -
    have "\<forall>(p1, p2)\<in>set (pairs pts). counted p1 p2 \<longrightarrow> creditable s (pairAvgHr p1 p2)"
    proof (clarify)
      fix p1 p2
      assume "(p1, p2) \<in> set (pairs pts)" "counted p1 p2"
      with h have "min_bpm (calculateZones s ! 0) \<le> pairAvgHr p1 p2 \<or> maxHR s \<le> pairAvgHr p1 p2"
        by blast
      then show "creditable s (pairAvgHr p1 p2)"
        using creditable_above_zone1 [of s "pairAvgHr p1 p2"] by (auto simp: creditable_def)
    qed
    then have "sum_list (map seconds (getZoneDistribution pts s)) = totalClassified pts s"
      by (rule seconds_total_eq)
    then show ?thesis using h by (simp add: percentage_total)
  qed
qed

theorem zone_percentages_witness:
  "totalClassified [hrPoint 0 150, hrPoint 1000 150, hrPoint 2000 170]
       \<lparr>maxHR = 200, restingHR = 50, zoneMethod = MAX_HR\<rparr> = 2
   \<and> sum_list (map percentage (getZoneDistribution [hrPoint 0 150, hrPoint 1000 150, hrPoint 2000 170]
       \<lparr>maxHR = 200, restingHR = 50, zoneMethod = MAX_HR\<rparr>)) = 100
   \<and> totalClassified [hrPoint 0 150] \<lparr>maxHR = 200, restingHR = 50, zoneMethod = MAX_HR\<rparr> = 0
   \<and> map percentage (getZoneDistribution [hrPoint 0 150] \<lparr>maxHR = 200, restingHR = 50, zoneMethod = MAX_HR\<rparr>)
        = [0, 0, 0, 0, 0]"
proof -
  let ?s = "\<lparr>maxHR = 200, restingHR = 50, zoneMethod = MAX_HR\<rparr>"
  let ?pts = "[hrPoint 0 150, hrPoint 1000 150, hrPoint 2000 170]"
  have t: "totalClassified ?pts ?s = 2" by code_simp
  have z: "min_bpm (calculateZones ?s ! 0) = 100" by code_simp
  have c: "\<forall>(p1, p2)\<in>set (pairs ?pts). counted p1 p2 \<longrightarrow>
              min_bpm (calculateZones ?s ! 0) \<le> pairAvgHr p1 p2 \<or> maxHR ?s \<le> pairAvgHr p1 p2"
    unfolding z by (simp add: pairs_def pairAvgHr_def hrPoint_def)
  have a: "sum_list (map percentage (getZoneDistribution ?pts ?s)) = 100"
    using zone_percentages [of ?pts ?s] t c by simp
  have t0: "totalClassified [hrPoint 0 150] ?s = 0" by code_simp
  have l: "length (getZoneDistribution [hrPoint 0 150] ?s) = 5" by (rule getZoneDistribution_length)
  have "\<forall>d\<in>set (getZoneDistribution [hrPoint 0 150] ?s). percentage d = 0"
    using zone_percentages [of "[hrPoint 0 150]" ?s] t0 by simp
  then have b: "map percentage (getZoneDistribution [hrPoint 0 150] ?s) = [0, 0, 0, 0, 0]"
    using l by (auto simp: list_eq_iff_nth_eq nth_Cons' )
  from t a t0 b show ?thesis by simp
qed


text \<open>
  A counted pair whose average heart rate lies below zone 1 adds to the total but to no zone:
  with two samples at 80 bpm one second apart and zones from \<open>maxHR = 200\<close>, the total is
  positive and the percentages do not sum to 100.
\<close>

theorem zone_percentages_counterexample:
  "0 < totalClassified [hrPoint 0 80, hrPoint 1000 80] \<lparr>maxHR = 200, restingHR = 50, zoneMethod = MAX_HR\<rparr>
   \<and> \<not> \<bar>sum_list (map percentage
           (getZoneDistribution [hrPoint 0 80, hrPoint 1000 80]
              \<lparr>maxHR = 200, restingHR = 50, zoneMethod = MAX_HR\<rparr>)) - 100\<bar> \<le> 0.01"
  by code_simp

subsection \<open>Zone boundaries\<close>

lemma Math_round_mono: "x \<le> y \<Longrightarrow> Math_round x \<le> Math_round y"
  by (simp add: Math_round_def floor_mono)


lemma Math_round_int: "Math_round (of_int n) = of_int n"
proof -
  have "\<lfloor>real_of_int n + 1 / 2\<rfloor> = n" by (simp add: floor_eq_iff)
  then show ?thesis by (simp add: Math_round_def)
qed













subsection \<open>Adjacent zones\<close>







subsection \<open>Training effect\<close>

lemma effectScale_code:
  assumes "0 \<le> score"
  shows "effectScale score =
     Some (if score < 10 then 1.0 + (score / 10)
           else if score < 30 then 2.0 + (score - 10) / 20
           else if score < 60 then 3.0 + (score - 30) / 30
           else if score < 120 then 4.0 + (score - 60) / 60
           else 5.0)"
  using assms by (simp add: effectScale_def)

lemma effectScale_range: "effectScale score = Some e \<Longrightarrow> 1 \<le> e \<and> e \<le> 5"
  by (auto simp: effectScale_def split: if_splits)

lemma round_tenth_range:
  assumes "1 \<le> e" "e \<le> 5"
  shows "1 \<le> min 5.0 (Math_round (e * 10) / 10)" "min 5.0 (Math_round (e * 10) / 10) \<le> 5"
proof -
  have "Math_round 10 \<le> Math_round (e * 10)"
    using assms by (intro Math_round_mono) simp
  moreover have "Math_round 10 = 10" using Math_round_int [of 10] by simp
  ultimately show "1 \<le> min 5.0 (Math_round (e * 10) / 10)" by simp
  show "min 5.0 (Math_round (e * 10) / 10) \<le> 5" by simp
qed

text \<open>
  Claim C7.  The load score \<open>(Z3 * 0.5 + Z4 * 1.5 + Z5 * 3.0) / 60\<close> of the zone seconds is
  never negative, and \<open>calculateTrainingEffect\<close> is its image under the piecewise scale,
  rounded to one decimal and capped at 5.0; the result lies between 1.0 and 5.0.  With 1200
  seconds in zone 3, 600 in zone 4 and none in zone 5 the result is 2.8.
\<close>

theorem trainingEffect_scale:
  "(\<exists>score e.
      score = (seconds (getZoneDistribution pts s ! 2) * 0.5
               + seconds (getZoneDistribution pts s ! 3) * 1.5
               + seconds (getZoneDistribution pts s ! 4) * 3.0) / 60
      \<and> 0 \<le> score
      \<and> effectScale score = Some e
      \<and> calculateTrainingEffect pts s = min 5.0 (Math_round (e * 10) / 10))
   \<and> 1 \<le> calculateTrainingEffect pts s \<and> calculateTrainingEffect pts s \<le> 5
   \<and> (seconds (getZoneDistribution pts s ! 2) = 1200
        \<and> seconds (getZoneDistribution pts s ! 3) = 600
        \<and> seconds (getZoneDistribution pts s ! 4) = 0
        \<longrightarrow> calculateTrainingEffect pts s = 2.8)"
proof -
  define score where "score = (seconds (getZoneDistribution pts s ! 2) * 0.5
               + seconds (getZoneDistribution pts s ! 3) * 1.5
               + seconds (getZoneDistribution pts s ! 4) * 3.0) / 60"
  define e where "e = (if score < 10 then 1.0 + (score / 10)
           else if score < 30 then 2.0 + (score - 10) / 20
           else if score < 60 then 3.0 + (score - 30) / 30
           else if score < 120 then 4.0 + (score - 60) / 60
           else 5.0)"
  have nn: "0 \<le> score"
    using seconds_nonneg [of 2 pts s] seconds_nonneg [of 3 pts s] seconds_nonneg [of 4 pts s]
    by (simp add: score_def)
  have es: "effectScale score = Some e"
    using effectScale_code [OF nn] by (simp add: e_def)
  have te: "calculateTrainingEffect pts s = min 5.0 (Math_round (e * 10) / 10)"
    by (simp add: calculateTrainingEffect_def Let_def e_def score_def)
  have rg: "1 \<le> e \<and> e \<le> 5" using es by (rule effectScale_range)
  have c1: "\<exists>score e.
      score = (seconds (getZoneDistribution pts s ! 2) * 0.5
               + seconds (getZoneDistribution pts s ! 3) * 1.5
               + seconds (getZoneDistribution pts s ! 4) * 3.0) / 60
      \<and> 0 \<le> score
      \<and> effectScale score = Some e
      \<and> calculateTrainingEffect pts s = min 5.0 (Math_round (e * 10) / 10)"
    using nn es te score_def by blast
  have c2: "1 \<le> calculateTrainingEffect pts s \<and> calculateTrainingEffect pts s \<le> 5"
    using round_tenth_range [of e] rg by (simp only: te)
  have c3: "calculateTrainingEffect pts s = 2.8"
    if "seconds (getZoneDistribution pts s ! 2) = 1200
        \<and> seconds (getZoneDistribution pts s ! 3) = 600
        \<and> seconds (getZoneDistribution pts s ! 4) = 0"
  proof -
    have "score = 25" using that by (simp add: score_def)
    then have "e * 10 = 55 / 2" by (simp add: e_def)
    moreover have "Math_round (55 / 2) = 28" by (simp add: Math_round_def)
    ultimately have "Math_round (e * 10) = 28" by (simp only:)
    then show ?thesis by (simp add: te)
  qed
  from c1 c2 c3 show ?thesis by blast
qed

lemma tempoRun_seconds:
  "map seconds (getZoneDistribution tempoRun \<lparr>maxHR = 200, restingHR = 50, zoneMethod = MAX_HR\<rparr>)
     = [0, 0, 1200, 600, 0]"
  by code_simp

theorem trainingEffect_scale_witness:
  "seconds (getZoneDistribution tempoRun \<lparr>maxHR = 200, restingHR = 50, zoneMethod = MAX_HR\<rparr> ! 2) = 1200
   \<and> seconds (getZoneDistribution tempoRun \<lparr>maxHR = 200, restingHR = 50, zoneMethod = MAX_HR\<rparr> ! 3) = 600
   \<and> seconds (getZoneDistribution tempoRun \<lparr>maxHR = 200, restingHR = 50, zoneMethod = MAX_HR\<rparr> ! 4) = 0
   \<and> calculateTrainingEffect tempoRun \<lparr>maxHR = 200, restingHR = 50, zoneMethod = MAX_HR\<rparr> = 2.8"
proof -
  let ?d = "getZoneDistribution tempoRun \<lparr>maxHR = 200, restingHR = 50, zoneMethod = MAX_HR\<rparr>"
  have l: "length ?d = 5" by (rule getZoneDistribution_length)
  have "map seconds ?d ! 2 = 1200 \<and> map seconds ?d ! 3 = 600 \<and> map seconds ?d ! 4 = 0"
    by (simp only: tempoRun_seconds) simp
  then have s: "seconds (?d ! 2) = 1200 \<and> seconds (?d ! 3) = 600 \<and> seconds (?d ! 4) = 0"
    using l by simp
  with trainingEffect_scale [of tempoRun "\<lparr>maxHR = 200, restingHR = 50, zoneMethod = MAX_HR\<rparr>"]
  show ?thesis by blast
qed

subsection \<open>Trace ingestion\<close>

lemma paceStep_points: "points_acc (paceStep prev tp st) = points_acc st"
  by (simp add: paceStep_def Let_def)

lemma climbStep_points: "points_acc (climbStep tp st) = points_acc st"
  by (simp add: climbStep_def Let_def split: option.splits)

lemma climbStep_movingTime: "movingTime_acc (climbStep tp st) = movingTime_acc st"
  by (simp add: climbStep_def Let_def split: option.splits)

lemma paceStep_movingTime:
  "movingTime_acc (paceStep prev tp st) = movingTime_acc st + movingSeconds (prev, tp)"
  by (simp add: paceStep_def Let_def movingSeconds_def)

lemma parseStep_points: "points_acc (parseStep st tp) = points_acc st @ [tp]"
  by (simp add: parseStep_def Let_def paceStep_points climbStep_points split: option.splits)

lemma parseStep_movingTime:
  "movingTime_acc (parseStep st tp) =
     movingTime_acc st
       + (if points_acc st \<noteq> [] then movingSeconds (last (points_acc st), tp) else 0)"
  by (simp add: parseStep_def Let_def paceStep_movingTime climbStep_movingTime split: option.splits)

lemma foldl_parseStep_points: "points_acc (foldl parseStep st tps) = points_acc st @ tps"
  by (induction tps arbitrary: st) (simp_all add: parseStep_points)

lemma foldl_parseStep_movingTime:
  "movingTime_acc (foldl parseStep st tps) =
     movingTime_acc st
       + sum_list (map movingSeconds
           (pairs ((if points_acc st \<noteq> [] then [last (points_acc st)] else []) @ tps)))"
proof (induction tps arbitrary: st)
  case Nil
  show ?case by (simp add: pairs_def)
next
  case (Cons tp tps)
  have "movingTime_acc (foldl parseStep st (tp # tps))
      = movingTime_acc (parseStep st tp)
        + sum_list (map movingSeconds (pairs (tp # tps)))"
    using Cons.IH [of "parseStep st tp"] by (simp add: parseStep_points)
  then show ?case
    by (simp add: parseStep_movingTime pairs_def)
qed

lemma parse_movingTime:
  "movingTime_acc (foldl parseStep initialParseState tps) = sum_list (map movingSeconds (pairs tps))"
  using foldl_parseStep_movingTime [of initialParseState tps]
  by (simp add: initialParseState_def)

lemma parse_points: "points_acc (foldl parseStep initialParseState tps) = tps"
  using foldl_parseStep_points [of initialParseState tps]
  by (simp add: initialParseState_def)

text \<open>
  Claim C1, as the code has it.  \<open>parseTCX\<close> never fails: for every input it returns a
  trace whose points are the parsed samples.  For an input with no sample it returns the
  trace with an empty points sequence, the first clock reading as start time, and a summary
  in which every number is 0 except \<open>elapsedTime\<close>, the difference of the two clock
  readings, and the constant \<open>variabilityIndex\<close> 1.05.
\<close>

theorem parseTCX_always_returns:
  "(\<exists>run. parseTCX fileName clock tps = Inr run \<and> points run = tps)
   \<and> parseTCX fileName clock [] =
       Inr \<lparr>runId = ''run_'' @ showInt (fst clock),
            name = replaceFirst ''.tcx'' [] fileName,
            startTime = fst clock,
            points = [],
            laps = [],
            summary =
              \<lparr>totalDistance = 0,
               elapsedTime = real_of_int (snd clock - fst clock) / 1000,
               movingTime = 0, avgHR = 0, maxHR_run = 0, totalAscent = 0, totalDescent = 0,
               avgPace = Fin 0, maxPace = Fin 0, calories = 0, fitnessScore = 0,
               intensityFactor = Fin 0, variabilityIndex = 1.05, aerobicEfficiency = 0,
               movementRatio = 0, vam = 0, gap = None, decoupling = None,
               trainingEffect = 0\<rparr>\<rparr>"
proof -
  have a: "\<exists>run. parseTCX fileName clock tps = Inr run \<and> points run = tps"
    by (simp add: parseTCX_def Let_def parse_points)
  have r: "Math_round 0 = 0" using Math_round_int [of 0] by simp
  have b: "parseTCX fileName clock [] =
       Inr \<lparr>runId = ''run_'' @ showInt (fst clock),
            name = replaceFirst ''.tcx'' [] fileName,
            startTime = fst clock,
            points = [],
            laps = [],
            summary =
              \<lparr>totalDistance = 0,
               elapsedTime = real_of_int (snd clock - fst clock) / 1000,
               movingTime = 0, avgHR = 0, maxHR_run = 0, totalAscent = 0, totalDescent = 0,
               avgPace = Fin 0, maxPace = Fin 0, calories = 0, fitnessScore = 0,
               intensityFactor = Fin 0, variabilityIndex = 1.05, aerobicEfficiency = 0,
               movementRatio = 0, vam = 0, gap = None, decoupling = None,
               trainingEffect = 0\<rparr>\<rparr>"
    by (simp add: parseTCX_def Let_def initialParseState_def r)
  from a b show ?thesis by blast
qed

text \<open>
  Ingestion of a document without track points returns the degenerate trace, not the error
  \<open>NoValidSamples\<close>.
\<close>

theorem parseTCX_empty_counterexample:
  "parseTCX ''a.tcx'' (5, 6) [] =
       Inr \<lparr>runId = ''run_5'', name = ''a'', startTime = 5, points = [], laps = [],
            summary =
              \<lparr>totalDistance = 0, elapsedTime = 1 / 1000,
               movingTime = 0, avgHR = 0, maxHR_run = 0, totalAscent = 0, totalDescent = 0,
               avgPace = Fin 0, maxPace = Fin 0, calories = 0, fitnessScore = 0,
               intensityFactor = Fin 0, variabilityIndex = 1.05, aerobicEfficiency = 0,
               movementRatio = 0, vam = 0, gap = None, decoupling = None,
               trainingEffect = 0\<rparr>\<rparr>
   \<and> parseTCX ''a.tcx'' (5, 6) [] \<noteq> Inl NoValidSamples"
  by code_simp

text \<open>
  Claim C5, as the code has it.  The moving time is the sum, over the consecutive pairs of
  samples, of the time deltas of the pairs whose delta lies strictly between 0 and 15
  seconds and whose average speed exceeds 0.5 m/s; every other pair, and so every pair with
  a gap that is not positive or is 15 seconds or more, adds nothing.
\<close>

theorem parseTCX_movingTime:
  "movingTime (summary (projr (parseTCX fileName clock tps)))
     = sum_list (map (\<lambda>(prev, tp).
          if 0 < secondsBetween prev tp \<and> secondsBetween prev tp < 15
             \<and> (orZero (distance tp) - orZero (distance prev)) / secondsBetween prev tp > 0.5
          then secondsBetween prev tp else 0) (pairs tps))"
proof -
  have ms: "movingSeconds = (\<lambda>(prev, tp).
          if 0 < secondsBetween prev tp \<and> secondsBetween prev tp < 15
             \<and> (orZero (distance tp) - orZero (distance prev)) / secondsBetween prev tp > 0.5
          then secondsBetween prev tp else 0)"
    by (simp add: movingSeconds_def fun_eq_iff)
  have "movingTime (summary (projr (parseTCX fileName clock tps)))
      = sum_list (map movingSeconds (pairs tps))"
    by (simp add: parseTCX_def Let_def parse_movingTime)
  then show ?thesis by (simp only: ms)
qed

text \<open>
  A pair exactly 15 seconds apart that covers 100 m is not counted: the moving time of the
  two-sample trace is 0.
\<close>

theorem parseTCX_movingTime_counterexample:
  "secondsBetween (distPoint 0 (Some 0)) (distPoint 15000 (Some 100)) = 15
   \<and> (orZero (distance (distPoint 15000 (Some 100))) - orZero (distance (distPoint 0 (Some 0))))
       / secondsBetween (distPoint 0 (Some 0)) (distPoint 15000 (Some 100)) > 0.5
   \<and> movingTime (summary (projr (parseTCX ''run.tcx'' (0, 0)
        [distPoint 0 (Some 0), distPoint 15000 (Some 100)]))) = 0"
  by code_simp

lemma parseTCX_avgPace:
  "avgPace (summary (projr (parseTCX fileName clock tps)))
     = (if movingTime (summary (projr (parseTCX fileName clock tps))) > 0
        then jdiv (Fin (movingTime (summary (projr (parseTCX fileName clock tps)))))
                  (Fin (totalDistance (summary (projr (parseTCX fileName clock tps))) / 1000))
        else Fin 0)"
  by (simp add: parseTCX_def Let_def)

lemma parseTCX_avgPace_finite:
  "isFinite (avgPace (summary (projr (parseTCX fileName clock tps))))
     \<longleftrightarrow> \<not> (movingTime (summary (projr (parseTCX fileName clock tps))) > 0
            \<and> totalDistance (summary (projr (parseTCX fileName clock tps))) = 0)"
  by (simp add: parseTCX_avgPace isFinite_def jsignInf_def)

text \<open>
  Claim C2.  The guard of \<open>avgPace\<close> tests the moving time, not the distance that divides.
  On a trace whose last sample has no distance the total distance is 0 while the moving
  time is positive, and \<open>avgPace\<close> is \<open>Infinity\<close>, where the claim has 0.
\<close>

theorem avgPace_infinite:
  "movingTime (summary (projr (parseTCX ''run.tcx'' (0, 0)
      [distPoint 0 (Some 0), distPoint 1000 (Some 10), distPoint 2000 None]))) = 1
   \<and> totalDistance (summary (projr (parseTCX ''run.tcx'' (0, 0)
      [distPoint 0 (Some 0), distPoint 1000 (Some 10), distPoint 2000 None]))) = 0
   \<and> avgPace (summary (projr (parseTCX ''run.tcx'' (0, 0)
      [distPoint 0 (Some 0), distPoint 1000 (Some 10), distPoint 2000 None]))) = PosInf"
  by code_simp

subsection \<open>Aerobic decoupling\<close>

lemma efficiencyLoop_count:
  "efficiencyLoop pts (h, d, t, n) = (h', d', t', n') \<Longrightarrow> (n = 0 \<longrightarrow> d = 0) \<Longrightarrow> (n' = 0 \<longrightarrow> d' = 0)"
proof (induction pts "(h, d, t, n)" arbitrary: h d t n rule: efficiencyLoop.induct)
  case (1 prev p ps)
  obtain h1 d1 t1 n1 where st: "efficiencyStep prev p (h, d, t, n) = (h1, d1, t1, n1)"
    by (cases "efficiencyStep prev p (h, d, t, n)") auto
  have "n1 = 0 \<longrightarrow> d1 = 0"
    using st "1.prems"(2) by (auto simp: efficiencyStep_def split: if_splits)
  moreover have "efficiencyLoop (p # ps) (h1, d1, t1, n1) = (h', d', t', n')"
    using "1.prems"(1) st by simp
  ultimately show ?case using "1.hyps" [OF st] by blast
qed simp_all

lemma efficiencySums_count:
  "efficiencySums pts = (h, d, t, n) \<Longrightarrow> d \<noteq> 0 \<Longrightarrow> n \<noteq> 0"
  using efficiencyLoop_count [of pts 0 0 0 0 h d t n] by (auto simp: efficiencySums_def)

lemma getEfficiency_zero:
  "efficiencySums pts = (h, d, t, n) \<Longrightarrow> d = 0 \<Longrightarrow> getEfficiency pts = Fin 0"
  by (simp add: getEfficiency_def)

lemma getEfficiency_finite:
  assumes "efficiencySums pts = (h, d, t, n)" "d \<noteq> 0" "h \<noteq> 0" "t \<noteq> 0"
  shows "getEfficiency pts = Fin ((1 / ((t / 60) / (d / 1000))) / (h / real n))"
    and "(1 / ((t / 60) / (d / 1000))) / (h / real n) \<noteq> 0"
proof -
  have n: "n \<noteq> 0" using efficiencySums_count [OF assms(1) assms(2)] .
  show "getEfficiency pts = Fin ((1 / ((t / 60) / (d / 1000))) / (h / real n))"
    using assms n by (simp add: getEfficiency_def Let_def)
  show "(1 / ((t / 60) / (d / 1000))) / (h / real n) \<noteq> 0"
    using assms n by simp
qed

text \<open>
  Claim C8, as the code has it.  With fewer than 100 samples the decoupling is the
  distinguished result \<open>null\<close>, and so it is whenever the efficiency of either half, split at
  \<open>floor (n / 2)\<close>, is 0.  With at least 100 samples and, in both halves, a non-zero distance
  sum, heart-rate sum and time sum over the pairs taken, both efficiencies are finite and not
  zero, and the result is the finite percentage \<open>(eff1 - eff2) / eff1 * 100\<close>.
\<close>

theorem calculateDecoupling_cases:
  "(length pts < 100 \<longrightarrow> calculateDecoupling pts = None)
   \<and> (getEfficiency (take (length pts div 2) pts) = Fin 0
        \<or> getEfficiency (drop (length pts div 2) pts) = Fin 0
      \<longrightarrow> calculateDecoupling pts = None)
   \<and> (100 \<le> length pts
        \<and> efficiencySums (take (length pts div 2) pts) = (h1, d1, t1, n1)
        \<and> efficiencySums (drop (length pts div 2) pts) = (h2, d2, t2, n2)
        \<and> d1 \<noteq> 0 \<and> h1 \<noteq> 0 \<and> t1 \<noteq> 0 \<and> d2 \<noteq> 0 \<and> h2 \<noteq> 0 \<and> t2 \<noteq> 0
      \<longrightarrow> (let eff1 = (1 / ((t1 / 60) / (d1 / 1000))) / (h1 / real n1);
               eff2 = (1 / ((t2 / 60) / (d2 / 1000))) / (h2 / real n2)
           in eff1 \<noteq> 0 \<and> calculateDecoupling pts = Some (Fin (((eff1 - eff2) / eff1) * 100))))"
proof (intro conjI impI)
  show "calculateDecoupling pts = None" if "length pts < 100"
    using that by (simp add: calculateDecoupling_def)
  show "calculateDecoupling pts = None"
    if "getEfficiency (take (length pts div 2) pts) = Fin 0
        \<or> getEfficiency (drop (length pts div 2) pts) = Fin 0"
    using that by (auto simp: calculateDecoupling_def Let_def)
  show "let eff1 = (1 / ((t1 / 60) / (d1 / 1000))) / (h1 / real n1);
            eff2 = (1 / ((t2 / 60) / (d2 / 1000))) / (h2 / real n2)
        in eff1 \<noteq> 0 \<and> calculateDecoupling pts = Some (Fin (((eff1 - eff2) / eff1) * 100))"
    if h: "100 \<le> length pts
        \<and> efficiencySums (take (length pts div 2) pts) = (h1, d1, t1, n1)
        \<and> efficiencySums (drop (length pts div 2) pts) = (h2, d2, t2, n2)
        \<and> d1 \<noteq> 0 \<and> h1 \<noteq> 0 \<and> t1 \<noteq> 0 \<and> d2 \<noteq> 0 \<and> h2 \<noteq> 0 \<and> t2 \<noteq> 0"
  proof -
    define eff1 where "eff1 = (1 / ((t1 / 60) / (d1 / 1000))) / (h1 / real n1)"
    define eff2 where "eff2 = (1 / ((t2 / 60) / (d2 / 1000))) / (h2 / real n2)"
    have e1: "getEfficiency (take (length pts div 2) pts) = Fin eff1" and z1: "eff1 \<noteq> 0"
      unfolding eff1_def using getEfficiency_finite [of "take (length pts div 2) pts" h1 d1 t1 n1] h
      by blast+
    have e2: "getEfficiency (drop (length pts div 2) pts) = Fin eff2" and z2: "eff2 \<noteq> 0"
      unfolding eff2_def using getEfficiency_finite [of "drop (length pts div 2) pts" h2 d2 t2 n2] h
      by blast+
    have "calculateDecoupling pts = Some (Fin (((eff1 - eff2) / eff1) * 100))"
      using h z1 z2 by (simp add: calculateDecoupling_def Let_def e1 e2 jsub_def)
    then show ?thesis using z1 by (simp add: Let_def eff1_def eff2_def)
  qed
qed

lemma steadyRun_length: "length (steadyRun n) = n"
  by (simp add: steadyRun_def)

lemma steadyRun_sums:
  "efficiencySums (take 50 (steadyRun 100)) = (7350, 147, 49, 49)"
  "efficiencySums (drop 50 (steadyRun 100)) = (7840, 147, 49, 49)"
  by code_simp+

lemma hrOnly_sums: "efficiencySums (take 50 (replicate 100 (hrPoint 0 150))) = (0, 0, 0, 0)"
  by code_simp

lemma frozenClockRun_length: "length frozenClockRun = 100"
  by (simp add: frozenClockRun_def)

lemma frozenClockRun_sums:
  "efficiencySums (take 50 frozenClockRun) = (7350, 49, 0, 49)"
  "efficiencySums (drop 50 frozenClockRun) = (7350, 49, 0, 49)"
  by code_simp+

theorem calculateDecoupling_cases_witness:
  "calculateDecoupling (steadyRun 99) = None
   \<and> calculateDecoupling (replicate 100 (hrPoint 0 150)) = None
   \<and> calculateDecoupling (steadyRun 100) = Some (Fin (25 / 4))"
proof -
  have a: "calculateDecoupling (steadyRun 99) = None"
    using calculateDecoupling_cases [of "steadyRun 99"] by (simp add: steadyRun_length)
  have "getEfficiency (take (length (replicate 100 (hrPoint 0 150)) div 2) (replicate 100 (hrPoint 0 150)))
          = Fin 0"
    using getEfficiency_zero [OF hrOnly_sums] by simp
  then have b: "calculateDecoupling (replicate 100 (hrPoint 0 150)) = None"
    using calculateDecoupling_cases [of "replicate 100 (hrPoint 0 150)"] by blast
  have "100 \<le> length (steadyRun 100)
        \<and> efficiencySums (take (length (steadyRun 100) div 2) (steadyRun 100)) = (7350, 147, 49, 49)
        \<and> efficiencySums (drop (length (steadyRun 100) div 2) (steadyRun 100)) = (7840, 147, 49, 49)
        \<and> (147::real) \<noteq> 0 \<and> (7350::real) \<noteq> 0 \<and> (49::real) \<noteq> 0
        \<and> (147::real) \<noteq> 0 \<and> (7840::real) \<noteq> 0 \<and> (49::real) \<noteq> 0"
    using steadyRun_sums by (simp add: steadyRun_length)
  with calculateDecoupling_cases [of "steadyRun 100" 7350 147 49 49 7840 147 49 49]
  have "let eff1 = (1 / ((49 / 60) / (147 / 1000))) / (7350 / real 49);
            eff2 = (1 / ((49 / 60) / (147 / 1000))) / (7840 / real 49)
        in eff1 \<noteq> (0::real) \<and> calculateDecoupling (steadyRun 100) = Some (Fin (((eff1 - eff2) / eff1) * 100))"
    by blast
  then have c: "calculateDecoupling (steadyRun 100) = Some (Fin (25 / 4))"
    by (simp add: Let_def)
  from a b c show ?thesis by simp
qed

text \<open>
  When all samples of a half carry the same timestamp the time sum of that half is 0 while
  its distance and heart-rate sums are not: the pace is 0, the efficiency is infinite, and
  the result is \<open>NaN\<close>, neither \<open>null\<close> nor a percentage.
\<close>

theorem calculateDecoupling_counterexample:
  "length frozenClockRun = 100
   \<and> efficiencySums (take (length frozenClockRun div 2) frozenClockRun) = (7350, 49, 0, 49)
   \<and> efficiencySums (drop (length frozenClockRun div 2) frozenClockRun) = (7350, 49, 0, 49)
   \<and> getEfficiency (take (length frozenClockRun div 2) frozenClockRun) = PosInf
   \<and> getEfficiency (drop (length frozenClockRun div 2) frozenClockRun) = PosInf
   \<and> calculateDecoupling frozenClockRun = Some NaN"
  by (simp add: frozenClockRun_length frozenClockRun_sums calculateDecoupling_def getEfficiency_def
        Let_def jsub_def jsignInf_def)

end
